theory Spec2Isabelle
  imports Complex_Main
begin

section \<open>The state of the component \<open>App\<close> (frontend/src/App.jsx)\<close>

text \<open>
  The numbers held in the state are real numbers, and a coordinate that is \<open>null\<close> is
  \<open>None\<close>. The arithmetic of \<open>calculateDistance\<close> is modelled twice: over any
  arithmetic, which covers the binary64 numbers of JavaScript with their rounding and
  their NaN, and in exact real arithmetic, without rounding.

  A form field that holds a number or a string is a \<open>form_value\<close>: \<open>Num r\<close> is the
  number \<open>r\<close>, \<open>Fixed2 n\<close> is the string that \<open>toFixed(2)\<close> prints for the integer
  \<open>n\<close> of hundredths (the decimal numeral of \<open>n / 100\<close> with two fraction digits), and
  \<open>Text s\<close> is any other string, as typed into an input.
\<close>

datatype form_value = Num real | Fixed2 int | Text string

datatype domain_kind = Transport | Energy

datatype loc_type = Start | End

record formData =
  distance_km :: form_value
  kwh :: form_value
  hour :: form_value
  day_of_week :: form_value
  is_weekend :: form_value
  location :: string
  vehicle_type :: string
  start_lat :: "real option"
  start_lon :: "real option"
  end_lat :: "real option"
  end_lon :: "real option"
  start_location_name :: string
  end_location_name :: string

text \<open>
  One entry of the geocoder's answer. The service sends \<open>lat\<close> and \<open>lon\<close> as decimal
  strings; the fields here hold the numbers that \<open>parseFloat\<close> reads from them.
\<close>

record suggestion =
  lat :: real
  lon :: real
  display_name :: string

record locationSearch =
  start_text :: string
  end_text :: string
  startSuggestions :: "suggestion list"
  endSuggestions :: "suggestion list"
  searchingStart :: bool
  searchingEnd :: bool

text \<open>
  The body of a \<open>/predict\<close> answer: \<open>bayesian_mean\<close> is \<open>data.predictions.bayesian?.mean\<close>
  (\<open>None\<close> when the model or its mean is absent), \<open>body\<close> the rest of the JSON text, which
  the component only displays.
\<close>

record predict_data =
  bayesian_mean :: "real option"
  body :: string

record history_entry =
  timestamp :: string
  entry_domain :: domain_kind
  input :: form_value
  bayesian :: real

record app_state =
  domain :: domain_kind
  form :: formData
  search :: locationSearch
  showMap :: bool
  mapMode :: "loc_type option"
  predictions :: "predict_data option"
  optimization :: "string option"
  loading :: bool
  loadingOptimization :: bool
  error :: "string option"
  history :: "history_entry list"

definition initial_formData :: formData where
  "initial_formData =
     \<lparr>distance_km = Num 5, kwh = Num 2, hour = Num 12, day_of_week = Num 3,
      is_weekend = Num 0, location = ''UK'', vehicle_type = ''petrol_car'',
      start_lat = None, start_lon = None, end_lat = None, end_lon = None,
      start_location_name = [], end_location_name = []\<rparr>"

definition initial_locationSearch :: locationSearch where
  "initial_locationSearch =
     \<lparr>start_text = [], end_text = [], startSuggestions = [], endSuggestions = [],
      searchingStart = False, searchingEnd = False\<rparr>"

definition initial_state :: app_state where
  "initial_state =
     \<lparr>domain = Transport, form = initial_formData, search = initial_locationSearch,
      showMap = False, mapMode = None, predictions = None, optimization = None,
      loading = False, loadingOptimization = False, error = None, history = []\<rparr>"

section \<open>Requests\<close>

text \<open>
  What \<open>await fetch(...)\<close> followed by \<open>await response.json()\<close> can give: the promise of
  \<open>fetch\<close> rejects with an error (\<open>Rejected msg\<close>, \<open>msg\<close> being \<open>err.message\<close>), or it
  resolves to a response with the flag \<open>response.ok\<close> and a body that either fails to
  parse (\<open>Inl msg\<close>) or parses to a value (\<open>Inr data\<close>). The body of a response that is not
  ok is never read.
\<close>

datatype 'a fetch_outcome = Rejected string | Responded bool "string + 'a"

text \<open>The failures of claim C2 and C5: a network error or a status that is not a success.\<close>

fun fetch_failed :: "'a fetch_outcome \<Rightarrow> bool" where
  "fetch_failed (Rejected msg) = True"
| "fetch_failed (Responded ok b) = (\<not> ok)"

subsection \<open>\<open>handlePredict\<close>\<close>

text \<open>\<open>xs.slice(-10)\<close>: the last ten elements, all of them when there are fewer.\<close>

definition slice_last10 :: "'a list \<Rightarrow> 'a list" where
  "slice_last10 xs = drop (length xs - 10) xs"

text \<open>\<open>m || 0\<close> on an optional number: absent and zero both give 0.\<close>

definition or_zero :: "real option \<Rightarrow> real" where
  "or_zero m = (case m of None \<Rightarrow> 0 | Some v \<Rightarrow> if v = 0 then 0 else v)"

text \<open>
  The part of \<open>handlePredict\<close> before the \<open>await\<close>: \<open>setLoading(true); setError(null)\<close>.
\<close>

definition handlePredict_begin :: "app_state \<Rightarrow> app_state" where
  "handlePredict_begin s = s\<lparr>loading := True, error := None\<rparr>"

text \<open>
  The part after the \<open>await\<close>. \<open>cl\<close> is the state the handler closed over (it reads
  \<open>domain\<close> and \<open>formData\<close> from its closure), \<open>now\<close> is
  \<open>new Date().toLocaleTimeString()\<close>, and \<open>s\<close> is the state when the answer arrives.
  The \<open>catch\<close> stores \<open>err.message\<close>; the \<open>finally\<close> resets the loading flag.
\<close>

definition handlePredict_history_entry ::
  "app_state \<Rightarrow> string \<Rightarrow> predict_data \<Rightarrow> history_entry" where
  "handlePredict_history_entry cl now d =
     \<lparr>timestamp = now, entry_domain = domain cl,
      input = (if domain cl = Transport then distance_km (form cl) else kwh (form cl)),
      bayesian = or_zero (bayesian_mean d)\<rparr>"

fun handlePredict_end ::
  "app_state \<Rightarrow> string \<Rightarrow> predict_data fetch_outcome \<Rightarrow> app_state \<Rightarrow> app_state" where
  "handlePredict_end cl now (Rejected msg) s = s\<lparr>error := Some msg, loading := False\<rparr>"
| "handlePredict_end cl now (Responded ok b) s =
     (if \<not> ok then s\<lparr>error := Some ''Prediction failed'', loading := False\<rparr>
      else case b of
        Inl msg \<Rightarrow> s\<lparr>error := Some msg, loading := False\<rparr>
      | Inr d \<Rightarrow>
          s\<lparr>predictions := Some d,
            history := slice_last10 (history s @ [handlePredict_history_entry cl now d]),
            loading := False\<rparr>)"

text \<open>A whole call with nothing else happening while the request is in flight.\<close>

definition handlePredict ::
  "string \<Rightarrow> predict_data fetch_outcome \<Rightarrow> app_state \<Rightarrow> app_state" where
  "handlePredict now r s = handlePredict_end s now r (handlePredict_begin s)"


subsection \<open>\<open>handleOptimize\<close>\<close>

definition handleOptimize_begin :: "app_state \<Rightarrow> app_state" where
  "handleOptimize_begin s = s\<lparr>loadingOptimization := True\<rparr>"

fun handleOptimize_end :: "string fetch_outcome \<Rightarrow> app_state \<Rightarrow> app_state" where
  "handleOptimize_end (Rejected msg) s = s\<lparr>error := Some msg, loadingOptimization := False\<rparr>"
| "handleOptimize_end (Responded ok b) s =
     (if \<not> ok then s\<lparr>error := Some ''Optimization failed'', loadingOptimization := False\<rparr>
      else case b of
        Inl msg \<Rightarrow> s\<lparr>error := Some msg, loadingOptimization := False\<rparr>
      | Inr d \<Rightarrow> s\<lparr>optimization := Some d, loadingOptimization := False\<rparr>)"

subsection \<open>\<open>searchLocation\<close>\<close>

text \<open>
  \<open>searchLocation(query, type)\<close> up to its \<open>await\<close>. A query that is empty or shorter
  than three characters empties the suggestion list and sends nothing; any other query
  raises the searching flag and sends one request to the geocoder. The result is the new
  search state and whether a request was sent.
\<close>

definition too_short :: "string \<Rightarrow> bool" where
  "too_short query \<longleftrightarrow> query = [] \<or> length query < 3"

definition searchLocation_begin ::
  "string \<Rightarrow> loc_type \<Rightarrow> locationSearch \<Rightarrow> locationSearch \<times> bool" where
  "searchLocation_begin query ty ls =
     (if too_short query then
        ((case ty of Start \<Rightarrow> ls\<lparr>startSuggestions := []\<rparr>
                   | End \<Rightarrow> ls\<lparr>endSuggestions := []\<rparr>), False)
      else
        ((case ty of Start \<Rightarrow> ls\<lparr>searchingStart := True\<rparr>
                   | End \<Rightarrow> ls\<lparr>searchingEnd := True\<rparr>), True))"

text \<open>
  The rest of \<open>searchLocation\<close>, once the request has settled. Only an ok response whose
  body parses writes the suggestions; a rejected fetch (or a body that does not parse)
  reaches the \<open>catch\<close>, which logs and lowers the searching flag; a response that is not
  ok skips the \<open>if (response.ok)\<close> block and changes nothing.
\<close>

fun searchLocation_end ::
  "loc_type \<Rightarrow> suggestion list fetch_outcome \<Rightarrow> locationSearch \<Rightarrow> locationSearch" where
  "searchLocation_end ty (Rejected msg) ls =
     (case ty of Start \<Rightarrow> ls\<lparr>searchingStart := False\<rparr> | End \<Rightarrow> ls\<lparr>searchingEnd := False\<rparr>)"
| "searchLocation_end ty (Responded ok b) ls =
     (if ok then
        (case b of
           Inr data \<Rightarrow>
             (case ty of Start \<Rightarrow> ls\<lparr>startSuggestions := data, searchingStart := False\<rparr>
                       | End \<Rightarrow> ls\<lparr>endSuggestions := data, searchingEnd := False\<rparr>)
         | Inl msg \<Rightarrow>
             (case ty of Start \<Rightarrow> ls\<lparr>searchingStart := False\<rparr>
                       | End \<Rightarrow> ls\<lparr>searchingEnd := False\<rparr>))
      else ls)"

definition suggestions_of :: "loc_type \<Rightarrow> locationSearch \<Rightarrow> suggestion list" where
  "suggestions_of ty ls = (case ty of Start \<Rightarrow> startSuggestions ls | End \<Rightarrow> endSuggestions ls)"

text \<open>The search step on the whole state: nothing but \<open>locationSearch\<close> is written.\<close>

definition searchLocation_settle ::
  "loc_type \<Rightarrow> suggestion list fetch_outcome \<Rightarrow> app_state \<Rightarrow> app_state" where
  "searchLocation_settle ty r s = s\<lparr>search := searchLocation_end ty r (search s)\<rparr>"

section \<open>The great-circle distance\<close>

text \<open>
  An arithmetic gives a meaning to the numeric literals, the operators and the functions
  of \<open>Math\<close> that \<open>calculateDistance\<close> uses, and to \<open>toFixed(2)\<close>. The numbers of
  JavaScript are one arithmetic: binary64, where every operation rounds and an operation
  outside its domain gives NaN.
\<close>

record 'n arith =
  num_lit :: "int \<Rightarrow> 'n"
  add_op :: "'n \<Rightarrow> 'n \<Rightarrow> 'n"
  sub_op :: "'n \<Rightarrow> 'n \<Rightarrow> 'n"
  mul_op :: "'n \<Rightarrow> 'n \<Rightarrow> 'n"
  div_op :: "'n \<Rightarrow> 'n \<Rightarrow> 'n"
  PI_op :: 'n
  sin_op :: "'n \<Rightarrow> 'n"
  cos_op :: "'n \<Rightarrow> 'n"
  sqrt_op :: "'n \<Rightarrow> 'n"
  atan2_op :: "'n \<Rightarrow> 'n \<Rightarrow> 'n"
  toFixed2_op :: "'n \<Rightarrow> form_value"

text \<open>
  \<open>calculateDistance\<close> in an arithmetic \<open>A\<close>, operation by operation in the order in
  which JavaScript evaluates lines 455 to 468: the constant \<open>a\<close>, then \<open>c\<close> and
  \<open>distance\<close> from \<open>a\<close>, then the update of the form. The function returns nothing: it
  writes \<open>distance.toFixed(2)\<close> into \<open>formData.distance_km\<close> through
  \<open>setFormData(prev => ...)\<close>.
\<close>

definition a_in :: "'n arith \<Rightarrow> 'n \<Rightarrow> 'n \<Rightarrow> 'n \<Rightarrow> 'n \<Rightarrow> 'n" where
  "a_in A lat1 lon1 lat2 lon2 =
     (let dLat = div_op A (mul_op A (sub_op A lat2 lat1) (PI_op A)) (num_lit A 180);
          dLon = div_op A (mul_op A (sub_op A lon2 lon1) (PI_op A)) (num_lit A 180)
      in add_op A
           (mul_op A (sin_op A (div_op A dLat (num_lit A 2)))
                     (sin_op A (div_op A dLat (num_lit A 2))))
           (mul_op A
             (mul_op A
               (mul_op A (cos_op A (div_op A (mul_op A lat1 (PI_op A)) (num_lit A 180)))
                         (cos_op A (div_op A (mul_op A lat2 (PI_op A)) (num_lit A 180))))
               (sin_op A (div_op A dLon (num_lit A 2))))
             (sin_op A (div_op A dLon (num_lit A 2)))))"

definition distance_from_a_in :: "'n arith \<Rightarrow> 'n \<Rightarrow> 'n" where
  "distance_from_a_in A a =
     (let R = num_lit A 6371;
          c = mul_op A (num_lit A 2)
                (atan2_op A (sqrt_op A a) (sqrt_op A (sub_op A (num_lit A 1) a)))
      in mul_op A R c)"

definition distance_in :: "'n arith \<Rightarrow> 'n \<Rightarrow> 'n \<Rightarrow> 'n \<Rightarrow> 'n \<Rightarrow> 'n" where
  "distance_in A lat1 lon1 lat2 lon2 = distance_from_a_in A (a_in A lat1 lon1 lat2 lon2)"

definition calculateDistance_in ::
  "'n arith \<Rightarrow> 'n \<Rightarrow> 'n \<Rightarrow> 'n \<Rightarrow> 'n \<Rightarrow> formData \<Rightarrow> formData" where
  "calculateDistance_in A lat1 lon1 lat2 lon2 prev =
     (let a = a_in A lat1 lon1 lat2 lon2;
          distance = distance_from_a_in A a
      in prev\<lparr>distance_km := toFixed2_op A distance\<rparr>)"

subsection \<open>Exact arithmetic\<close>

text \<open>
  The rest of this section reads the same lines in exact real arithmetic, and the
  handlers below call this reading. Binary64 agrees with it up to rounding; where
  rounding decides the outcome, as it does next to the antipode, the two differ.

  \<open>Math.atan2(y, x)\<close> on real numbers. (The signed zeros of floating point are not
  modelled; \<open>calculateDistance\<close> passes two square roots, which are never negative.)
\<close>

definition Math_atan2 :: "real \<Rightarrow> real \<Rightarrow> real" where
  "Math_atan2 y x =
     (if 0 < x then arctan (y / x)
      else if x < 0 then (if 0 \<le> y then arctan (y / x) + pi else arctan (y / x) - pi)
      else if 0 < y then pi / 2
      else if y < 0 then - (pi / 2)
      else 0)"

text \<open>The local constants \<open>a\<close>, \<open>c\<close> and \<open>distance\<close> of \<open>calculateDistance\<close>.\<close>

definition calculateDistance_a :: "real \<Rightarrow> real \<Rightarrow> real \<Rightarrow> real \<Rightarrow> real" where
  "calculateDistance_a lat1 lon1 lat2 lon2 =
     (let dLat = (lat2 - lat1) * pi / 180;
          dLon = (lon2 - lon1) * pi / 180
      in sin (dLat / 2) * sin (dLat / 2) +
         cos (lat1 * pi / 180) * cos (lat2 * pi / 180) *
         sin (dLon / 2) * sin (dLon / 2))"

definition calculateDistance_c :: "real \<Rightarrow> real \<Rightarrow> real \<Rightarrow> real \<Rightarrow> real" where
  "calculateDistance_c lat1 lon1 lat2 lon2 =
     (let a = calculateDistance_a lat1 lon1 lat2 lon2
      in 2 * Math_atan2 (sqrt a) (sqrt (1 - a)))"

definition calculateDistance_distance :: "real \<Rightarrow> real \<Rightarrow> real \<Rightarrow> real \<Rightarrow> real" where
  "calculateDistance_distance lat1 lon1 lat2 lon2 =
     (let R = 6371 in R * calculateDistance_c lat1 lon1 lat2 lon2)"

text \<open>
  \<open>x.toFixed(2)\<close>: the sign is split off, and the digits are those of the integer \<open>n\<close>
  for which \<open>n / 100\<close> is nearest to the magnitude, the larger \<open>n\<close> on a tie. From
  \<open>10^21\<close> on, \<open>toFixed\<close> prints the number as \<open>String(x)\<close> does, which reads back as
  \<open>x\<close> itself. (\<open>Fixed2 0\<close> stands for both \<open>"0.00"\<close> and \<open>"-0.00"\<close>.)
\<close>

definition toFixed2 :: "real \<Rightarrow> form_value" where
  "toFixed2 x =
     (if 10 ^ 21 \<le> \<bar>x\<bar> then Num x
      else if x < 0 then Fixed2 (- \<lfloor>100 * (- x) + 1 / 2\<rfloor>)
      else Fixed2 \<lfloor>100 * x + 1 / 2\<rfloor>)"

text \<open>
  \<open>calculateDistance\<close> returns nothing: it writes \<open>distance.toFixed(2)\<close> into
  \<open>formData.distance_km\<close> through \<open>setFormData(prev => ...)\<close>.
\<close>

definition calculateDistance :: "real \<Rightarrow> real \<Rightarrow> real \<Rightarrow> real \<Rightarrow> formData \<Rightarrow> formData" where
  "calculateDistance lat1 lon1 lat2 lon2 prev =
     prev\<lparr>distance_km := toFixed2 (calculateDistance_distance lat1 lon1 lat2 lon2)\<rparr>"

definition exact :: "real arith" where
  "exact =
     \<lparr>num_lit = real_of_int, add_op = (+), sub_op = (-), mul_op = (*), div_op = (/),
      PI_op = pi, sin_op = sin, cos_op = cos, sqrt_op = sqrt, atan2_op = Math_atan2,
      toFixed2_op = toFixed2\<rparr>"

subsection \<open>Exact arithmetic with NaN\<close>

text \<open>
  A number of JavaScript is NaN or finite (the infinities are not modelled). In this
  arithmetic the finite results are exact, \<open>Math.sqrt\<close> of a negative number is NaN, an
  operation on NaN gives NaN, and \<open>NaN.toFixed(2)\<close> is the string \<open>NaN\<close>. It shows what
  lines 462 to 468 do with a value of \<open>a\<close> that rounding has pushed out of the interval
  from 0 to 1.
\<close>

datatype js_num = NaN | Fin real

fun lift1 :: "(real \<Rightarrow> real) \<Rightarrow> js_num \<Rightarrow> js_num" where
  "lift1 f (Fin x) = Fin (f x)"
| "lift1 f NaN = NaN"

fun lift2 :: "(real \<Rightarrow> real \<Rightarrow> real) \<Rightarrow> js_num \<Rightarrow> js_num \<Rightarrow> js_num" where
  "lift2 f (Fin x) (Fin y) = Fin (f x y)"
| "lift2 f x y = NaN"

fun Math_sqrt :: "js_num \<Rightarrow> js_num" where
  "Math_sqrt (Fin x) = (if x < 0 then NaN else Fin (sqrt x))"
| "Math_sqrt NaN = NaN"

fun divide_num :: "js_num \<Rightarrow> js_num \<Rightarrow> js_num" where
  "divide_num (Fin x) (Fin y) = (if y = 0 then NaN else Fin (x / y))"
| "divide_num x y = NaN"

fun toFixed2_num :: "js_num \<Rightarrow> form_value" where
  "toFixed2_num (Fin x) = toFixed2 x"
| "toFixed2_num NaN = Text ''NaN''"

definition with_NaN :: "js_num arith" where
  "with_NaN =
     \<lparr>num_lit = (\<lambda>k. Fin (real_of_int k)), add_op = lift2 (+), sub_op = lift2 (-),
      mul_op = lift2 (*), div_op = divide_num, PI_op = Fin pi, sin_op = lift1 sin,
      cos_op = lift1 cos, sqrt_op = Math_sqrt, atan2_op = lift2 Math_atan2,
      toFixed2_op = toFixed2_num\<rparr>"

section \<open>The route selection\<close>

text \<open>
  The handlers test a coordinate with \<open>formData.end_lat && formData.end_lon\<close>, that is
  by JavaScript truthiness: \<open>null\<close> is falsy, and so is the number 0.
\<close>

fun truthy :: "real option \<Rightarrow> bool" where
  "truthy None = False"
| "truthy (Some v) = (v \<noteq> 0)"

text \<open>
  The conditional call at the end of the handlers:
  \<open>if (la && lo) calculateDistance(...)\<close>, the other end being read from the closure.
\<close>

definition distance_from_start ::
  "real \<Rightarrow> real \<Rightarrow> formData \<Rightarrow> formData \<Rightarrow> formData" where
  "distance_from_start la lo cl prev =
     (case (end_lat cl, end_lon cl) of
        (Some ela, Some elo) \<Rightarrow>
          if truthy (end_lat cl) \<and> truthy (end_lon cl)
          then calculateDistance la lo ela elo prev else prev
      | _ \<Rightarrow> prev)"

definition distance_to_end ::
  "real \<Rightarrow> real \<Rightarrow> formData \<Rightarrow> formData \<Rightarrow> formData" where
  "distance_to_end la lo cl prev =
     (case (start_lat cl, start_lon cl) of
        (Some sla, Some slo) \<Rightarrow>
          if truthy (start_lat cl) \<and> truthy (start_lon cl)
          then calculateDistance sla slo la lo prev else prev
      | _ \<Rightarrow> prev)"

text \<open>
  \<open>handleLocationSelect(location, type)\<close>. \<open>cl\<close> is the \<open>formData\<close> of the render that
  created the handler: the final test reads it, while every \<open>setFormData(prev => ...)\<close>
  updates the state of the moment. (The marker drawn on the map is not part of the state.)
\<close>

definition handleLocationSelect ::
  "suggestion \<Rightarrow> loc_type \<Rightarrow> formData \<Rightarrow> app_state \<Rightarrow> app_state" where
  "handleLocationSelect loc ty cl s =
     (let la = lat loc; lo = lon loc; name = display_name loc in
      case ty of
        Start \<Rightarrow>
          s\<lparr>form := distance_from_start la lo cl
                     ((form s)\<lparr>start_lat := Some la, start_lon := Some lo,
                                start_location_name := name\<rparr>),
            search := (search s)\<lparr>start_text := name, startSuggestions := []\<rparr>\<rparr>
      | End \<Rightarrow>
          s\<lparr>form := distance_to_end la lo cl
                     ((form s)\<lparr>end_lat := Some la, end_lon := Some lo,
                                end_location_name := name\<rparr>),
            search := (search s)\<lparr>end_text := name, endSuggestions := []\<rparr>\<rparr>)"

text \<open>A click on a suggestion: the handler of the current render, so \<open>cl\<close> is the current form.\<close>

definition select_suggestion :: "suggestion \<Rightarrow> loc_type \<Rightarrow> app_state \<Rightarrow> app_state" where
  "select_suggestion loc ty s = handleLocationSelect loc ty (form s) s"

definition clearLocation :: "loc_type \<Rightarrow> app_state \<Rightarrow> app_state" where
  "clearLocation ty s =
     (case ty of
        Start \<Rightarrow>
          s\<lparr>form := (form s)\<lparr>start_lat := None, start_lon := None, start_location_name := []\<rparr>,
            search := (search s)\<lparr>start_text := [], startSuggestions := []\<rparr>\<rparr>
      | End \<Rightarrow>
          s\<lparr>form := (form s)\<lparr>end_lat := None, end_lon := None, end_location_name := []\<rparr>,
            search := (search s)\<lparr>end_text := [], endSuggestions := []\<rparr>\<rparr>)"

text \<open>
  \<open>setStartMarker(lat, lng)\<close> and \<open>setEndMarker(lat, lng)\<close>, for a click on the map or the
  end of a marker drag: the coordinate is stored at once; \<open>geo\<close> is the outcome of the
  reverse lookup (the \<open>display_name\<close> of an ok answer), whose failure is only logged; \<open>cl\<close>
  is the \<open>formData\<close> in the closure of the handler.
\<close>

fun reverse_name :: "string fetch_outcome \<Rightarrow> string option" where
  "reverse_name (Rejected msg) = None"
| "reverse_name (Responded ok b) =
     (if ok then (case b of Inr name \<Rightarrow> Some name | Inl msg \<Rightarrow> None) else None)"

definition setStartMarker ::
  "real \<Rightarrow> real \<Rightarrow> string fetch_outcome \<Rightarrow> formData \<Rightarrow> app_state \<Rightarrow> app_state" where
  "setStartMarker la lng geo cl s =
     (let s1 = s\<lparr>form := (form s)\<lparr>start_lat := Some la, start_lon := Some lng\<rparr>\<rparr>;
          s2 = (case reverse_name geo of
                  Some name \<Rightarrow>
                    s1\<lparr>form := (form s1)\<lparr>start_location_name := name\<rparr>,
                       search := (search s1)\<lparr>start_text := name\<rparr>\<rparr>
                | None \<Rightarrow> s1)
      in s2\<lparr>form := distance_from_start la lng cl (form s2)\<rparr>)"

definition setEndMarker ::
  "real \<Rightarrow> real \<Rightarrow> string fetch_outcome \<Rightarrow> formData \<Rightarrow> app_state \<Rightarrow> app_state" where
  "setEndMarker la lng geo cl s =
     (let s1 = s\<lparr>form := (form s)\<lparr>end_lat := Some la, end_lon := Some lng\<rparr>\<rparr>;
          s2 = (case reverse_name geo of
                  Some name \<Rightarrow>
                    s1\<lparr>form := (form s1)\<lparr>end_location_name := name\<rparr>,
                       search := (search s1)\<lparr>end_text := name\<rparr>\<rparr>
                | None \<Rightarrow> s1)
      in s2\<lparr>form := distance_to_end la lng cl (form s2)\<rparr>)"

text \<open>
  What the panel "Calculated Distance" shows. It is rendered under
  \<open>formData.start_lat && formData.end_lat\<close> and prints \<open>formData.distance_km\<close>.
\<close>

definition calculated_distance_display :: "formData \<Rightarrow> form_value option" where
  "calculated_distance_display fd =
     (if truthy (start_lat fd) \<and> truthy (end_lat fd) then Some (distance_km fd) else None)"

text \<open>Both coordinates are present: none of the four numbers is \<open>null\<close>.\<close>

definition both_present :: "formData \<Rightarrow> bool" where
  "both_present fd \<longleftrightarrow>
     start_lat fd \<noteq> None \<and> start_lon fd \<noteq> None \<and> end_lat fd \<noteq> None \<and> end_lon fd \<noteq> None"

section \<open>The debounced search\<close>

text \<open>
  The timers of the page: \<open>setTimeout\<close> hands out a fresh identifier and queues the call
  with the time at which it is due (times are in milliseconds); \<open>clearTimeout\<close> removes the
  timer with the given identifier, and does nothing for \<open>undefined\<close> or for a timer that
  has fired already.
\<close>

record 'a timers =
  next_id :: nat
  pending :: "(nat \<times> nat \<times> 'a) list"

definition no_timers :: "'a timers" where
  "no_timers = \<lparr>next_id = 0, pending = []\<rparr>"

definition setTimeout_at :: "'a \<Rightarrow> nat \<Rightarrow> nat \<Rightarrow> 'a timers \<Rightarrow> nat \<times> 'a timers" where
  "setTimeout_at args wait now T =
     (next_id T,
      T\<lparr>next_id := Suc (next_id T), pending := pending T @ [(next_id T, now + wait, args)]\<rparr>)"

definition clearTimeout_of :: "nat option \<Rightarrow> 'a timers \<Rightarrow> 'a timers" where
  "clearTimeout_of h T =
     (case h of None \<Rightarrow> T
      | Some i \<Rightarrow> T\<lparr>pending := filter (\<lambda>(j, due, args). j \<noteq> i) (pending T)\<rparr>)"

text \<open>
  \<open>debounce(func, wait)\<close> returns a function that owns the variable \<open>timeout\<close>, which is
  \<open>undefined\<close> at first. A call of the returned function at time \<open>now\<close> clears the timer
  named by \<open>timeout\<close> and stores the identifier of a new one.
\<close>

definition debounce :: "nat option" where
  "debounce = None"

definition debounced ::
  "nat \<Rightarrow> 'a \<Rightarrow> nat \<Rightarrow> nat option \<times> 'a timers \<Rightarrow> nat option \<times> 'a timers" where
  "debounced wait args now cT =
     (let T1 = clearTimeout_of (fst cT) (snd cT);
          (i, T2) = setTimeout_at args wait now T1
      in (Some i, T2))"

text \<open>
  The scheduling state of the search box: the \<open>timeout\<close> variable of the function
  \<open>debouncedSearch\<close> in use, the timers, and the calls of \<open>func\<close> made so far, in order.
\<close>

record 'a sched =
  timeout_var :: "nat option"
  timers :: "'a timers"
  calls :: "'a list"

definition idle :: "'a sched" where
  "idle = \<lparr>timeout_var = debounce, timers = no_timers, calls = []\<rparr>"

text \<open>Time passes up to \<open>now\<close>: every timer that is due runs its call and leaves the queue.\<close>

definition advance :: "nat \<Rightarrow> 'a sched \<Rightarrow> 'a sched" where
  "advance now st =
     st\<lparr>timers := (timers st)\<lparr>pending := filter (\<lambda>(j, due, args). now < due) (pending (timers st))\<rparr>,
        calls := calls st @
                 map (\<lambda>(j, due, args). args) (filter (\<lambda>(j, due, args). due \<le> now) (pending (timers st)))\<rparr>"

text \<open>An input event at time \<open>t\<close> calls the debounced function of the moment.\<close>

definition on_change :: "nat \<Rightarrow> nat \<times> 'a \<Rightarrow> 'a sched \<Rightarrow> 'a sched" where
  "on_change wait e st =
     (let st1 = advance (fst e) st;
          cT = debounced wait (snd e) (fst e) (timeout_var st1, timers st1)
      in st1\<lparr>timeout_var := fst cT, timers := snd cT\<rparr>)"

text \<open>One debounced function, kept over all events: what \<open>debounce\<close> provides by itself.\<close>

fun closure_run :: "nat \<Rightarrow> (nat \<times> 'a) list \<Rightarrow> 'a sched \<Rightarrow> 'a sched" where
  "closure_run wait [] st = st"
| "closure_run wait (e # es) st = closure_run wait es (on_change wait e st)"

text \<open>
  The component. \<open>const debouncedSearch = debounce(searchLocation, 500)\<close> is a statement of
  the body of \<open>App\<close>, so every render evaluates it again and the handlers of that render
  call a function with a \<open>timeout\<close> variable of its own. The \<open>onChange\<close> handler of a search
  box first stores the text with \<open>setLocationSearch\<close>, which makes React render the
  component again before the next event.
\<close>

definition render :: "'a sched \<Rightarrow> 'a sched" where
  "render st = st\<lparr>timeout_var := debounce\<rparr>"

fun App_run :: "(nat \<times> 'a) list \<Rightarrow> 'a sched \<Rightarrow> 'a sched" where
  "App_run [] st = st"
| "App_run (e # es) st = App_run es (render (on_change 500 e st))"

text \<open>
  The geocoding requests among the calls of \<open>searchLocation\<close>: the calls whose query is
  not too short.
\<close>

definition geocoding_requests :: "(string \<times> loc_type) list \<Rightarrow> (string \<times> loc_type) list" where
  "geocoding_requests cs = filter (\<lambda>(q, ty). \<not> too_short q) cs"

text \<open>Consecutive events are less than \<open>wait\<close> apart, and in the order of time.\<close>

fun rapid :: "nat \<Rightarrow> (nat \<times> 'a) list \<Rightarrow> bool" where
  "rapid wait [] = True"
| "rapid wait [e] = True"
| "rapid wait (e # e' # es) = (fst e \<le> fst e' \<and> fst e' < fst e + wait \<and> rapid wait (e' # es))"

section \<open>Events of the component\<close>

text \<open>
  The handlers as events on the state. An asynchronous handler is two events, its part
  before the \<open>await\<close> and its part after; the second carries what the handler closed over.
  \<open>Edit_form\<close> is an \<open>onChange\<close> of a form input, which stores a whole new \<open>formData\<close>.
\<close>

datatype event =
    Predict_begin
  | Predict_end app_state string "predict_data fetch_outcome"
  | Optimize_begin
  | Optimize_end "string fetch_outcome"
  | Search_text string loc_type
  | Search_begin string loc_type
  | Search_end loc_type "suggestion list fetch_outcome"
  | Select suggestion loc_type
  | Clear loc_type
  | Place_start real real "string fetch_outcome" formData
  | Place_end real real "string fetch_outcome" formData
  | Edit_form formData
  | Set_domain domain_kind
  | Set_showMap bool
  | Set_mapMode "loc_type option"

fun step :: "event \<Rightarrow> app_state \<Rightarrow> app_state" where
  "step Predict_begin s = handlePredict_begin s"
| "step (Predict_end cl now r) s = handlePredict_end cl now r s"
| "step Optimize_begin s = handleOptimize_begin s"
| "step (Optimize_end r) s = handleOptimize_end r s"
| "step (Search_text v ty) s =
     s\<lparr>search := (case ty of Start \<Rightarrow> (search s)\<lparr>start_text := v\<rparr>
                            | End \<Rightarrow> (search s)\<lparr>end_text := v\<rparr>)\<rparr>"
| "step (Search_begin q ty) s = s\<lparr>search := fst (searchLocation_begin q ty (search s))\<rparr>"
| "step (Search_end ty r) s = searchLocation_settle ty r s"
| "step (Select loc ty) s = select_suggestion loc ty s"
| "step (Clear ty) s = clearLocation ty s"
| "step (Place_start la lng geo cl) s = setStartMarker la lng geo cl s"
| "step (Place_end la lng geo cl) s = setEndMarker la lng geo cl s"
| "step (Edit_form fd) s = s\<lparr>form := fd\<rparr>"
| "step (Set_domain d) s = s\<lparr>domain := d\<rparr>"
| "step (Set_showMap b) s = s\<lparr>showMap := b\<rparr>"
| "step (Set_mapMode m) s = s\<lparr>mapMode := m\<rparr>"

text \<open>The state after a sequence of events, the first event first.\<close>

fun run :: "event list \<Rightarrow> app_state \<Rightarrow> app_state" where
  "run [] s = s"
| "run (e # es) s = run es (step e s)"

text \<open>A whole call of \<open>searchLocation\<close> with nothing else happening meanwhile.\<close>

definition searchLocation ::
  "string \<Rightarrow> loc_type \<Rightarrow> suggestion list fetch_outcome \<Rightarrow> app_state \<Rightarrow> app_state" where
  "searchLocation query ty r s =
     (let (ls, sent) = searchLocation_begin query ty (search s)
      in if sent then searchLocation_settle ty r (s\<lparr>search := ls\<rparr>) else s\<lparr>search := ls\<rparr>)"

section \<open>Test data\<close>

definition london :: suggestion where
  "london = \<lparr>lat = 51.5074, lon = - 0.1278, display_name = ''London''\<rparr>"

definition paris :: suggestion where
  "paris = \<lparr>lat = 48.8566, lon = 2.3522, display_name = ''Paris''\<rparr>"

text \<open>Two changes of the start box, 100 ms apart: the user types \<open>lon\<close>, then \<open>d\<close>.\<close>

definition typing :: "(nat \<times> string \<times> loc_type) list" where
  "typing = [(0, ''lon'', Start), (100, ''lond'', Start)]"

section \<open>The distance in the words of the specification\<close>

text \<open>
  Degrees to radians, and the angle at the centre of the sphere between two points given
  by latitude and longitude in degrees: the angle between their unit vectors, by the
  spherical law of cosines. This is the "angular separation" of the specification; the
  code does not compute it in this form.
\<close>

definition radians :: "real \<Rightarrow> real" where
  "radians deg = deg * pi / 180"

definition central_angle :: "real \<Rightarrow> real \<Rightarrow> real \<Rightarrow> real \<Rightarrow> real" where
  "central_angle lat1 lon1 lat2 lon2 =
     arccos (sin (radians lat1) * sin (radians lat2) +
             cos (radians lat1) * cos (radians lat2) * cos (radians lon2 - radians lon1))"

text \<open>
  The Haversine algorithm as section 4.1 of the specification words it, the cosines being
  those of the two latitudes as angles. This definition follows the specification, not the
  code; \<open>calculateDistance_distance\<close> is the code.
\<close>

definition spec_haversine :: "real \<Rightarrow> real \<Rightarrow> real \<Rightarrow> real \<Rightarrow> real" where
  "spec_haversine lat1 lon1 lat2 lon2 =
     (let dlat = radians (lat2 - lat1);
          dlon = radians (lon2 - lon1);
          a = (sin (dlat / 2))\<^sup>2 + cos (radians lat1) * cos (radians lat2) * (sin (dlon / 2))\<^sup>2;
          c = 2 * Math_atan2 (sqrt a) (sqrt (1 - a))
      in 6371 * c)"

section \<open>More test data\<close>

text \<open>A place on the equator, as the geocoder would list it.\<close>

definition equator_point :: suggestion where
  "equator_point = \<lparr>lat = 0, lon = 10, display_name = ''Equator''\<rparr>"

text \<open>
  Three steps on the map. A click in start mode places the start marker in London, when
  no coordinate is set; a click in end mode places the end marker in Paris; then the
  start marker is dragged onto the place of the end marker. The handler of the drag is
  the \<open>setStartMarker\<close> of the render in which the marker was created, whose \<open>formData\<close>
  is the initial one.
\<close>

definition markers_placed :: app_state where
  "markers_placed =
     setEndMarker 48.8566 2.3522 (Responded True (Inr ''Paris''))
       (form (setStartMarker 51.5074 (- 0.1278) (Responded True (Inr ''London''))
                initial_formData initial_state))
       (setStartMarker 51.5074 (- 0.1278) (Responded True (Inr ''London''))
          initial_formData initial_state)"

definition start_dragged :: app_state where
  "start_dragged =
     setStartMarker 48.8566 2.3522 (Responded True (Inr ''Paris'')) initial_formData markers_placed"

chapter \<open>Properties\<close>

section \<open>The prediction history\<close>

lemma length_slice_last10: "length (slice_last10 xs) = min 10 (length xs)"
  by (simp add: slice_last10_def)

lemma history_handlePredict_end:
  "length (history s) \<le> 10 \<Longrightarrow> length (history (handlePredict_end cl now r s)) \<le> 10"
  by (cases r) (auto simp: length_slice_last10 split: sum.splits)

lemma history_handleOptimize_end: "history (handleOptimize_end r s) = history s"
  by (cases r) (auto split: sum.splits)

lemma history_handleLocationSelect: "history (handleLocationSelect loc ty cl s) = history s"
  by (cases ty) (simp_all add: handleLocationSelect_def Let_def)

lemma history_clearLocation: "history (clearLocation ty s) = history s"
  by (cases ty) (simp_all add: clearLocation_def)

lemma history_setStartMarker: "history (setStartMarker la lng geo cl s) = history s"
  by (simp add: setStartMarker_def Let_def split: option.splits)

lemma history_setEndMarker: "history (setEndMarker la lng geo cl s) = history s"
  by (simp add: setEndMarker_def Let_def split: option.splits)

lemma step_history_bound:
  assumes "length (history s) \<le> 10"
  shows "length (history (step e s)) \<le> 10"
proof (cases e)
  case (Predict_end cl now r)
  with assms show ?thesis by (simp add: history_handlePredict_end)
next
  case (Optimize_end r)
  with assms show ?thesis by (simp add: history_handleOptimize_end)
qed (use assms in \<open>simp_all add: handlePredict_begin_def handleOptimize_begin_def
      searchLocation_settle_def select_suggestion_def history_handleLocationSelect
      history_clearLocation history_setStartMarker history_setEndMarker\<close>)

lemma run_history_bound:
  "length (history s) \<le> 10 \<Longrightarrow> length (history (run es s)) \<le> 10"
  by (induction es arbitrary: s) (simp_all add: step_history_bound)

text \<open>
  Claim C10. The history never holds more than ten entries: whatever events have happened
  since the component was mounted, its length is at most 10. A successful \<open>handlePredict\<close>
  appends its entry to the history and keeps the last ten of the result, so the new entry
  is the last one and the length grows by one up to ten.
\<close>

theorem history_never_exceeds_10:
  "length (history (run es initial_state)) \<le> 10
   \<and> history (handlePredict now (Responded True (Inr d)) s)
       = slice_last10 (history s @ [handlePredict_history_entry s now d])
   \<and> last (history (handlePredict now (Responded True (Inr d)) s))
       = handlePredict_history_entry s now d
   \<and> length (history (handlePredict now (Responded True (Inr d)) s))
       = min 10 (Suc (length (history s)))"
proof (intro conjI)
  show "length (history (run es initial_state)) \<le> 10"
    by (rule run_history_bound) (simp add: initial_state_def)
  show eq: "history (handlePredict now (Responded True (Inr d)) s)
       = slice_last10 (history s @ [handlePredict_history_entry s now d])"
    by (simp add: handlePredict_def handlePredict_begin_def)
  show "last (history (handlePredict now (Responded True (Inr d)) s))
       = handlePredict_history_entry s now d"
    unfolding eq by (simp add: slice_last10_def)
  show "length (history (handlePredict now (Responded True (Inr d)) s))
       = min 10 (Suc (length (history s)))"
    unfolding eq by (simp add: length_slice_last10)
qed

section \<open>Failure of a prediction request\<close>




section \<open>Failure of a geocoding search\<close>

lemma suggestions_of_searchLocation_end:
  "fetch_failed r \<Longrightarrow> suggestions_of ty (searchLocation_end ty r ls) = suggestions_of ty ls"
  by (cases r; cases ty) (simp_all add: suggestions_of_def)

text \<open>
  Claim C5, as the code has it. When the request of a search fails (the promise rejects, or
  the response is not ok), no error is shown: the error state is not written. The
  suggestion list of that box is not emptied: it is left as it was before the search, so
  it is empty only if it was empty already.
\<close>

theorem searchLocation_failure:
  assumes "fetch_failed r" and "\<not> too_short query"
  shows "error (searchLocation query ty r s) = error s
     \<and> suggestions_of ty (search (searchLocation query ty r s)) = suggestions_of ty (search s)
     \<and> (suggestions_of ty (search s) = []
          \<longrightarrow> suggestions_of ty (search (searchLocation query ty r s)) = [])"
  using assms
  by (cases ty)
     (simp_all add: searchLocation_def searchLocation_begin_def searchLocation_settle_def
        suggestions_of_searchLocation_end, simp_all add: suggestions_of_def)

theorem searchLocation_failure_witness:
  "fetch_failed (Responded False (Inl []) :: suggestion list fetch_outcome)
   \<and> \<not> too_short ''paris''
   \<and> suggestions_of End (search initial_state) = []
   \<and> error (searchLocation ''paris'' End (Responded False (Inl [])) initial_state) = None
   \<and> suggestions_of End (search (searchLocation ''paris'' End (Responded False (Inl [])) initial_state))
       = []"
  using searchLocation_failure
    [of "Responded False (Inl []) :: suggestion list fetch_outcome" "''paris''" End initial_state]
  by (simp add: too_short_def suggestions_of_def initial_state_def initial_locationSearch_def)

text \<open>
  Claim C5 as stated fails: after a search for \<open>london\<close> has listed a suggestion, a search
  for \<open>londonx\<close> whose request is rejected leaves that suggestion in the list.
\<close>

theorem searchLocation_failure_counterexample:
  "fetch_failed (Rejected ''Failed to fetch'' :: suggestion list fetch_outcome)
   \<and> suggestions_of Start (search
        (searchLocation ''londonx'' Start (Rejected ''Failed to fetch'')
          (searchLocation ''london'' Start (Responded True (Inr [london])) initial_state)))
       = [london]
   \<and> [london] \<noteq> []"
  by (simp add: searchLocation_def searchLocation_begin_def searchLocation_settle_def too_short_def
      suggestions_of_def initial_state_def initial_locationSearch_def)

section \<open>The debounce\<close>

lemma on_change_pending_one:
  assumes "pending (timers st) = [(i, d, a)]" and "timeout_var st = Some i" and "fst e < d"
  shows "pending (timers (on_change wait e st)) = [(next_id (timers st), fst e + wait, snd e)]
       \<and> timeout_var (on_change wait e st) = Some (next_id (timers st))
       \<and> calls (on_change wait e st) = calls st"
  using assms
  by (simp add: on_change_def advance_def debounced_def clearTimeout_of_def setTimeout_at_def Let_def)

lemma on_change_idle:
  "pending (timers (on_change wait e idle)) = [(0, fst e + wait, snd e)]
       \<and> timeout_var (on_change wait e idle) = Some 0
       \<and> calls (on_change wait e idle) = []"
  by (simp add: on_change_def advance_def debounced_def clearTimeout_of_def setTimeout_at_def Let_def
       idle_def no_timers_def debounce_def)

lemma closure_run_pending_one:
  assumes "rapid wait (e # es)"
    and "pending (timers st) = [(i, fst e + wait, snd e)]" and "timeout_var st = Some i"
  shows "\<exists>j. pending (timers (closure_run wait es st))
               = [(j, fst (last (e # es)) + wait, snd (last (e # es)))]
           \<and> timeout_var (closure_run wait es st) = Some j
           \<and> calls (closure_run wait es st) = calls st"
  using assms
proof (induction es arbitrary: e st i)
  case Nil
  then show ?case by simp
next
  case (Cons e' es)
  from Cons.prems have r: "rapid wait (e' # es)" and lt: "fst e' < fst e + wait" by simp_all
  from on_change_pending_one [OF Cons.prems(2) Cons.prems(3) lt, of wait]
  have p: "pending (timers (on_change wait e' st)) = [(next_id (timers st), fst e' + wait, snd e')]"
    and t: "timeout_var (on_change wait e' st) = Some (next_id (timers st))"
    and c: "calls (on_change wait e' st) = calls st" by simp_all
  from Cons.IH [OF r p t] c show ?case by simp
qed

text \<open>
  The function that \<open>debounce\<close> returns does what the specification asks, as long as the
  same function receives all the events: a burst of events, each less than \<open>wait\<close> after
  the one before, leads to a single call, with the arguments of the last event, \<open>wait\<close>
  after it.
\<close>

lemma closure_run_single_call:
  assumes "rapid wait (e # es)"
  shows "calls (advance h (closure_run wait (e # es) idle))
       = (if fst (last (e # es)) + wait \<le> h then [snd (last (e # es))] else [])"
proof -
  from on_change_idle [of wait e]
  have p: "pending (timers (on_change wait e idle)) = [(0, fst e + wait, snd e)]"
    and t: "timeout_var (on_change wait e idle) = Some 0"
    and c: "calls (on_change wait e idle) = []" by simp_all
  from closure_run_pending_one [OF assms p t] c
  obtain j where "pending (timers (closure_run wait (e # es) idle))
               = [(j, fst (last (e # es)) + wait, snd (last (e # es)))]"
    and "calls (closure_run wait (e # es) idle) = []" by auto
  then show ?thesis by (simp add: advance_def)
qed

text \<open>
  Claim C3 fails on the component. Each render makes a new debounced function, so the
  change at 100 ms calls a function whose \<open>timeout\<close> is still \<open>undefined\<close> and the timer
  set at 0 ms is never cleared: both timers fire, and the geocoder receives a request for
  \<open>lon\<close> and a request for \<open>lond\<close>, where the claim allows one request, for \<open>lond\<close>.
\<close>

theorem debouncedSearch_two_requests:
  "rapid 500 typing
   \<and> geocoding_requests (calls (advance 1000 (App_run typing idle)))
       = [(''lon'', Start), (''lond'', Start)]"
  by (simp add: typing_def idle_def no_timers_def debounce_def render_def on_change_def advance_def
      debounced_def clearTimeout_of_def setTimeout_at_def geocoding_requests_def too_short_def Let_def)

section \<open>The Haversine computation\<close>

lemma sin_half_sq: "sin (x / 2) * sin (x / 2) = (1 - cos x) / 2" for x :: real
  using cos_double_sin [of "x / 2"] by (simp add: power2_eq_square)

lemma calculateDistance_a_alt:
  "calculateDistance_a lat1 lon1 lat2 lon2 =
     (1 - (sin (radians lat1) * sin (radians lat2) +
           cos (radians lat1) * cos (radians lat2) * cos (radians lon2 - radians lon1))) / 2"
proof -
  have 1: "(lat2 - lat1) * pi / 180 = radians lat2 - radians lat1"
    and 2: "(lon2 - lon1) * pi / 180 = radians lon2 - radians lon1"
    by (simp_all add: radians_def field_simps)
  have "calculateDistance_a lat1 lon1 lat2 lon2 =
      sin ((radians lat2 - radians lat1) / 2) * sin ((radians lat2 - radians lat1) / 2) +
      cos (radians lat1) * cos (radians lat2) *
      (sin ((radians lon2 - radians lon1) / 2) * sin ((radians lon2 - radians lon1) / 2))"
    unfolding calculateDistance_a_def Let_def 1 2 by (simp add: radians_def mult.assoc)
  also have "\<dots> = (1 - cos (radians lat2 - radians lat1)) / 2 +
      cos (radians lat1) * cos (radians lat2) * ((1 - cos (radians lon2 - radians lon1)) / 2)"
    by (simp only: sin_half_sq)
  also have "\<dots> = (1 - (sin (radians lat1) * sin (radians lat2) +
           cos (radians lat1) * cos (radians lat2) * cos (radians lon2 - radians lon1))) / 2"
    unfolding cos_diff [of "radians lat2" "radians lat1"] by (simp add: field_simps)
  finally show ?thesis .
qed

lemma unit_dot_bound:
  fixes s1 c1 s2 c2 k :: real
  assumes "s1\<^sup>2 + c1\<^sup>2 = 1" "s2\<^sup>2 + c2\<^sup>2 = 1" "\<bar>k\<bar> \<le> 1"
  shows "\<bar>s1 * s2 + c1 * c2 * k\<bar> \<le> 1"
proof -
  have a: "2 * \<bar>s1 * s2\<bar> \<le> s1\<^sup>2 + s2\<^sup>2"
    using sum_squares_bound [of "\<bar>s1\<bar>" "\<bar>s2\<bar>"] by (simp add: abs_mult)
  have b: "2 * \<bar>c1 * c2\<bar> \<le> c1\<^sup>2 + c2\<^sup>2"
    using sum_squares_bound [of "\<bar>c1\<bar>" "\<bar>c2\<bar>"] by (simp add: abs_mult)
  have "\<bar>c1 * c2 * k\<bar> = \<bar>c1 * c2\<bar> * \<bar>k\<bar>" by (simp add: abs_mult)
  also have "\<dots> \<le> \<bar>c1 * c2\<bar> * 1"
    by (rule mult_left_mono) (use assms in simp_all)
  finally have c: "\<bar>c1 * c2 * k\<bar> \<le> \<bar>c1 * c2\<bar>" by simp
  have "\<bar>s1 * s2 + c1 * c2 * k\<bar> \<le> \<bar>s1 * s2\<bar> + \<bar>c1 * c2 * k\<bar>" by (rule abs_triangle_ineq)
  with a b c assms show ?thesis by linarith
qed

lemma dot_bound:
  "\<bar>sin p * sin q + cos p * cos q * cos l\<bar> \<le> 1" for p q l :: real
  by (rule unit_dot_bound) simp_all

text \<open>
  \<open>Math.sqrt\<close> of a negative number is NaN. The two square roots of \<open>calculateDistance\<close>
  never meet one: \<open>a\<close> lies between 0 and 1 for all inputs.
\<close>

lemma calculateDistance_a_range:
  "0 \<le> calculateDistance_a lat1 lon1 lat2 lon2 \<and> calculateDistance_a lat1 lon1 lat2 lon2 \<le> 1"
  using dot_bound [of "radians lat1" "radians lat2" "radians lon2 - radians lon1"]
  unfolding calculateDistance_a_alt by (simp add: abs_le_iff)

lemma Math_atan2_sin_cos:
  assumes "0 \<le> t" "t \<le> pi / 2"
  shows "Math_atan2 (sin t) (cos t) = t"
proof (cases "t = pi / 2")
  case True
  have "sin (pi / 2) = (1::real)" "cos (pi / 2) = (0::real)" by simp_all
  then show ?thesis unfolding Math_atan2_def True by simp
next
  case False
  with assms have lt: "t < pi / 2" by simp
  then have "0 < cos t" using assms by (intro cos_gt_zero_pi) linarith+
  moreover have "arctan (sin t / cos t) = t"
    using arctan_tan [of t] assms lt by (simp add: tan_def)
  ultimately show ?thesis by (simp add: Math_atan2_def)
qed

lemma Math_atan2_sqrt:
  assumes "0 \<le> a" "a \<le> 1"
  shows "Math_atan2 (sqrt a) (sqrt (1 - a)) = arcsin (sqrt a)"
proof -
  have r: "0 \<le> sqrt a" "sqrt a \<le> 1" using assms by simp_all
  have "arcsin 0 \<le> arcsin (sqrt a)" using r by (intro arcsin_le_arcsin) linarith+
  then have b0: "0 \<le> arcsin (sqrt a)" by simp
  have b1: "arcsin (sqrt a) \<le> pi / 2" using r by (intro arcsin_ubound) linarith+
  note b = b0 b1
  have "- 1 \<le> sqrt a" using r by linarith
  then have "cos (arcsin (sqrt a)) = sqrt (1 - (sqrt a)\<^sup>2)"
    using r by (intro cos_arcsin)
  then have "cos (arcsin (sqrt a)) = sqrt (1 - a)"
    using assms by simp
  moreover have "sin (arcsin (sqrt a)) = sqrt a" using r by (intro sin_arcsin) linarith+
  ultimately show ?thesis using Math_atan2_sin_cos [OF b] by simp
qed

lemma half_arccos:
  assumes "\<bar>d\<bar> \<le> 1"
  shows "2 * arcsin (sqrt ((1 - d) / 2)) = arccos d"
proof -
  let ?t = "arccos d / 2"
  have b: "0 \<le> arccos d" "arccos d \<le> pi" using arccos_bounded [of d] assms by simp_all
  have "sin ?t * sin ?t = (1 - cos (arccos d)) / 2" by (rule sin_half_sq)
  also have "\<dots> = (1 - d) / 2" using assms by (simp add: cos_arccos_abs)
  finally have "(sin ?t)\<^sup>2 = (1 - d) / 2" by (simp add: power2_eq_square)
  moreover have "0 \<le> sin ?t" using b by (intro sin_ge_zero) simp_all
  ultimately have "sqrt ((1 - d) / 2) = sin ?t"
    by (metis real_sqrt_abs abs_of_nonneg)
  moreover have "arcsin (sin ?t) = ?t" using b by (intro arcsin_sin) simp_all
  ultimately show ?thesis by simp
qed

lemma calculateDistance_c_central_angle:
  "calculateDistance_c lat1 lon1 lat2 lon2 = central_angle lat1 lon1 lat2 lon2"
proof -
  let ?d = "sin (radians lat1) * sin (radians lat2) +
           cos (radians lat1) * cos (radians lat2) * cos (radians lon2 - radians lon1)"
  have r: "0 \<le> calculateDistance_a lat1 lon1 lat2 lon2" "calculateDistance_a lat1 lon1 lat2 lon2 \<le> 1"
    using calculateDistance_a_range by simp_all
  have "calculateDistance_c lat1 lon1 lat2 lon2
      = 2 * arcsin (sqrt (calculateDistance_a lat1 lon1 lat2 lon2))"
    by (simp add: calculateDistance_c_def Let_def Math_atan2_sqrt [OF r])
  also have "\<dots> = 2 * arcsin (sqrt ((1 - ?d) / 2))"
    by (simp only: calculateDistance_a_alt)
  also have "\<dots> = arccos ?d" by (rule half_arccos) (rule dot_bound)
  finally show ?thesis by (simp add: central_angle_def)
qed

lemma calculateDistance_c_range:
  "0 \<le> calculateDistance_c lat1 lon1 lat2 lon2 \<and> calculateDistance_c lat1 lon1 lat2 lon2 \<le> pi"
proof -
  let ?d = "sin (radians lat1) * sin (radians lat2) +
           cos (radians lat1) * cos (radians lat2) * cos (radians lon2 - radians lon1)"
  have "- 1 \<le> ?d" "?d \<le> 1"
    using dot_bound [of "radians lat1" "radians lat2" "radians lon2 - radians lon1"]
    by (simp_all add: abs_le_iff)
  then show ?thesis
    unfolding calculateDistance_c_central_angle central_angle_def by (rule arccos_bounded)
qed

subsection \<open>Bounds on the sine and on \<open>pi\<close>\<close>

lemma sin_poly9:
  fixes x :: real
  shows "\<bar>sin x - (x - x^3 / 6 + x^5 / 120 - x^7 / 5040)\<bar> \<le> \<bar>x\<bar>^9 / 362880"
proof -
  have "{..<9::nat} = {0, 1, 2, 3, 4, 5, 6, 7, 8}" by auto
  then have "(\<Sum>m<9. sin_coeff m * x ^ m) = (\<Sum>m\<in>{0, 1, 2, 3, 4, 5, 6, 7, 8}. sin_coeff m * x ^ m)"
    by simp
  also have "\<dots> = x - x^3 / 6 + x^5 / 120 - x^7 / 5040"
    by (simp add: sin_coeff_def fact_numeral)
  finally have p: "(\<Sum>m<9. sin_coeff m * x ^ m) = x - x^3 / 6 + x^5 / 120 - x^7 / 5040" .
  have f: "fact 9 = (362880::real)" by (simp add: fact_numeral)
  show ?thesis using Maclaurin_sin_bound [of x 9] unfolding p f by (simp add: inverse_eq_divide)
qed

lemma sin_poly3:
  fixes x :: real
  shows "\<bar>sin x - x\<bar> \<le> \<bar>x\<bar>^3 / 6"
proof -
  have "{..<3::nat} = {0, 1, 2}" by auto
  then have "(\<Sum>m<3. sin_coeff m * x ^ m) = (\<Sum>m\<in>{0, 1, 2}. sin_coeff m * x ^ m)"
    by simp
  also have "\<dots> = x" by (simp add: sin_coeff_def)
  finally have p: "(\<Sum>m<3. sin_coeff m * x ^ m) = x" .
  have f: "fact 3 = (6::real)" by (simp add: fact_numeral)
  show ?thesis using Maclaurin_sin_bound [of x 3] unfolding p f by (simp add: inverse_eq_divide)
qed

lemma pi_lower: "31415 / 10000 < pi"
proof -
  let ?q = "31415 / 60000 :: real"
  have "sin ?q \<le> (?q - ?q^3 / 6 + ?q^5 / 120 - ?q^7 / 5040) + \<bar>?q\<bar>^9 / 362880"
    using sin_poly9 [of ?q] by linarith
  also have "\<dots> < 1 / 2" by (simp add: power_divide)
  finally have lt: "sin ?q < sin (pi / 6)" by (simp add: sin_30)
  have "?q < pi / 6"
  proof (rule ccontr)
    assume "\<not> ?q < pi / 6"
    then have "pi / 6 \<le> ?q" by simp
    moreover have "?q \<le> pi / 2" using pi_ge_two by simp
    ultimately have "sin (pi / 6) \<le> sin ?q"
      by (intro sin_monotone_2pi_le) simp_all
    with lt show False by simp
  qed
  then show ?thesis by simp
qed

lemma pi_upper: "pi < 31416 / 10000"
proof -
  let ?q = "31416 / 60000 :: real"
  have "(?q - ?q^3 / 6 + ?q^5 / 120 - ?q^7 / 5040) - \<bar>?q\<bar>^9 / 362880 \<le> sin ?q"
    using sin_poly9 [of ?q] by linarith
  moreover have "1 / 2 < (?q - ?q^3 / 6 + ?q^5 / 120 - ?q^7 / 5040) - \<bar>?q\<bar>^9 / 362880"
    by (simp add: power_divide)
  ultimately have lt: "sin (pi / 6) < sin ?q" by (simp add: sin_30)
  have "pi / 6 < ?q"
  proof (rule ccontr)
    assume "\<not> pi / 6 < ?q"
    then have "?q \<le> pi / 6" by simp
    moreover have "- (pi / 2) \<le> ?q" using pi_ge_two by simp
    ultimately have "sin ?q \<le> sin (pi / 6)"
      by (intro sin_monotone_2pi_le) simp_all
    with lt show False by simp
  qed
  then show ?thesis by simp
qed

lemma sin_small_bounds:
  fixes x lo hi :: real
  assumes "0 \<le> lo" "lo \<le> x" "x \<le> hi"
  shows "lo - hi^3 / 6 \<le> sin x \<and> sin x \<le> hi"
proof -
  have x0: "0 \<le> x" using assms by linarith
  have "x^3 \<le> hi^3" using x0 assms by (intro power_mono) simp_all
  moreover have "\<bar>sin x - x\<bar> \<le> x^3 / 6" using sin_poly3 [of x] x0 by simp
  then have "x - x^3 / 6 \<le> sin x" by linarith
  moreover have "sin x \<le> x" using x0 by (rule sin_x_le_x)
  ultimately show ?thesis using assms by linarith
qed

lemma haversine_term_arith:
  fixes sx sy c1 c2 :: real
  assumes sx: "23128 / 1000000 \<le> sx" "sx \<le> 23133 / 1000000"
    and sy: "21639 / 1000000 \<le> sy" "sy \<le> 21643 / 1000000"
    and c1: "622 / 1000 \<le> c1" "c1 \<le> 623 / 1000"
    and c2: "657 / 1000 \<le> c2" "c2 \<le> 659 / 1000"
  shows "72622 / 100000000 \<le> sx\<^sup>2 + c1 * c2 * sy\<^sup>2
       \<and> sx\<^sup>2 + c1 * c2 * sy\<^sup>2 \<le> 72747 / 100000000"
proof -
  have p: "0 \<le> sx" "0 \<le> sy" "0 \<le> c1" "0 \<le> c2" using sx sy c1 c2 by linarith+
  have sx2: "(23128 / 1000000)\<^sup>2 \<le> sx\<^sup>2" "sx\<^sup>2 \<le> (23133 / 1000000)\<^sup>2"
    using sx p by (auto intro!: power_mono)
  have sy2: "(21639 / 1000000)\<^sup>2 \<le> sy\<^sup>2" "sy\<^sup>2 \<le> (21643 / 1000000)\<^sup>2"
    using sy p by (auto intro!: power_mono)
  have k_lo: "622 / 1000 * (657 / 1000) \<le> c1 * c2"
    by (rule mult_mono [OF c1(1) c2(1)]) (use p in simp_all)
  have k_hi: "c1 * c2 \<le> 623 / 1000 * (659 / 1000)"
    by (rule mult_mono [OF c1(2) c2(2)]) (use p in simp_all)
  have t_lo: "622 / 1000 * (657 / 1000) * (21639 / 1000000)\<^sup>2 \<le> c1 * c2 * sy\<^sup>2"
    by (rule mult_mono [OF k_lo sy2(1)]) (use p in simp_all)
  have t_hi: "c1 * c2 * sy\<^sup>2 \<le> 623 / 1000 * (659 / 1000) * (21643 / 1000000)\<^sup>2"
    by (rule mult_mono [OF k_hi sy2(2)]) (use p in simp_all)
  have n_lo: "(72622 / 100000000 :: real) \<le> (23128 / 1000000)\<^sup>2 + 622 / 1000 * (657 / 1000) * (21639 / 1000000)\<^sup>2"
    by (simp add: power_divide)
  have n_hi: "(23133 / 1000000)\<^sup>2 + 623 / 1000 * (659 / 1000) * (21643 / 1000000)\<^sup>2 \<le> (72747 / 100000000 :: real)"
    by (simp add: power_divide)
  show ?thesis using sx2 t_lo t_hi n_lo n_hi by linarith
qed

lemma calculateDistance_distance_spec:
  "calculateDistance_distance lat1 lon1 lat2 lon2 = spec_haversine lat1 lon1 lat2 lon2"
  by (simp add: calculateDistance_distance_def calculateDistance_c_def calculateDistance_a_def
      spec_haversine_def radians_def Let_def power2_eq_square mult.assoc)

lemma calculateDistance_a_same: "calculateDistance_a la lo la lo = 0"
  by (simp add: calculateDistance_a_def)

lemma calculateDistance_distance_same: "calculateDistance_distance la lo la lo = 0"
  by (simp add: calculateDistance_distance_def calculateDistance_c_def calculateDistance_a_same
      Math_atan2_def)

lemma toFixed2_zero: "toFixed2 0 = Fixed2 0"
  by (simp add: toFixed2_def)

lemma calculateDistance_a_sym:
  "calculateDistance_a lat1 lon1 lat2 lon2 = calculateDistance_a lat2 lon2 lat1 lon1"
proof -
  have 1: "(lat1 - lat2) * pi / 180 / 2 = - ((lat2 - lat1) * pi / 180 / 2)"
    and 2: "(lon1 - lon2) * pi / 180 / 2 = - ((lon2 - lon1) * pi / 180 / 2)"
    by (simp_all add: field_simps)
  show ?thesis
    unfolding calculateDistance_a_def Let_def 1 2 sin_minus by (simp add: mult.commute)
qed

lemma calculateDistance_distance_sym:
  "calculateDistance_distance lat1 lon1 lat2 lon2 = calculateDistance_distance lat2 lon2 lat1 lon1"
  by (simp add: calculateDistance_distance_def calculateDistance_c_def
      calculateDistance_a_sym [of lat1 lon1 lat2 lon2])

lemma calculateDistance_distance_range:
  "0 \<le> calculateDistance_distance lat1 lon1 lat2 lon2
   \<and> calculateDistance_distance lat1 lon1 lat2 lon2 \<le> 6371 * pi"
  using calculateDistance_c_range [of lat1 lon1 lat2 lon2]
  by (simp add: calculateDistance_distance_def)

lemma toFixed2_distance:
  "toFixed2 (calculateDistance_distance lat1 lon1 lat2 lon2)
     = Fixed2 \<lfloor>100 * calculateDistance_distance lat1 lon1 lat2 lon2 + 1 / 2\<rfloor>"
proof -
  let ?d = "calculateDistance_distance lat1 lon1 lat2 lon2"
  have r: "0 \<le> ?d" "?d \<le> 6371 * pi" using calculateDistance_distance_range by simp_all
  have "6371 * pi < 6371 * 4" using pi_less_4 by simp
  with r have "\<bar>?d\<bar> < 10 ^ 21" by simp
  with r show ?thesis by (simp add: toFixed2_def)
qed


subsection \<open>The fixture London to Paris\<close>

lemma sin_ge_of_rational:
  fixes q x :: real
  assumes "0 \<le> q" "q \<le> x" "x \<le> pi / 2"
  shows "sin q \<le> sin x"
  using assms by (intro sin_monotone_2pi_le) (simp_all, linarith?)

lemma cos_pi_half_minus: "cos (pi / 2 - z) = sin z" for z :: real
  by (simp add: cos_diff)

lemma sin_37_lower: "622 / 1000 \<le> sin (6718 / 10000 :: real)"
proof -
  let ?q = "6718 / 10000 :: real"
  have "(?q - ?q^3 / 6 + ?q^5 / 120 - ?q^7 / 5040) - \<bar>?q\<bar>^9 / 362880 \<le> sin ?q"
    using sin_poly9 [of ?q] by linarith
  moreover have "622 / 1000 \<le> (?q - ?q^3 / 6 + ?q^5 / 120 - ?q^7 / 5040) - \<bar>?q\<bar>^9 / 362880"
    by (simp add: power_divide)
  ultimately show ?thesis by linarith
qed

lemma sin_37_upper: "sin (67183 / 100000 :: real) \<le> 623 / 1000"
proof -
  let ?q = "67183 / 100000 :: real"
  have "sin ?q \<le> (?q - ?q^3 / 6 + ?q^5 / 120 - ?q^7 / 5040) + \<bar>?q\<bar>^9 / 362880"
    using sin_poly9 [of ?q] by linarith
  moreover have "(?q - ?q^3 / 6 + ?q^5 / 120 - ?q^7 / 5040) + \<bar>?q\<bar>^9 / 362880 \<le> 623 / 1000"
    by (simp add: power_divide)
  ultimately show ?thesis by linarith
qed

lemma sin_41_lower: "657 / 1000 \<le> sin (71806 / 100000 :: real)"
proof -
  let ?q = "71806 / 100000 :: real"
  have "(?q - ?q^3 / 6 + ?q^5 / 120 - ?q^7 / 5040) - \<bar>?q\<bar>^9 / 362880 \<le> sin ?q"
    using sin_poly9 [of ?q] by linarith
  moreover have "657 / 1000 \<le> (?q - ?q^3 / 6 + ?q^5 / 120 - ?q^7 / 5040) - \<bar>?q\<bar>^9 / 362880"
    by (simp add: power_divide)
  ultimately show ?thesis by linarith
qed

lemma sin_41_upper: "sin (71809 / 100000 :: real) \<le> 659 / 1000"
proof -
  let ?q = "71809 / 100000 :: real"
  have "sin ?q \<le> (?q - ?q^3 / 6 + ?q^5 / 120 - ?q^7 / 5040) + \<bar>?q\<bar>^9 / 362880"
    using sin_poly9 [of ?q] by linarith
  moreover have "(?q - ?q^3 / 6 + ?q^5 / 120 - ?q^7 / 5040) + \<bar>?q\<bar>^9 / 362880 \<le> 659 / 1000"
    by (simp add: power_divide)
  ultimately show ?thesis by linarith
qed

lemma cos_london: "622 / 1000 \<le> cos (515074 / 10000 * pi / 180) \<and> cos (515074 / 10000 * pi / 180) \<le> 623 / 1000"
proof -
  let ?psi = "384926 * pi / 1800000"
  have e: "cos (515074 / 10000 * pi / 180) = sin ?psi"
  proof -
    have "515074 / 10000 * pi / 180 = pi / 2 - ?psi" by simp
    then show ?thesis by (simp only: cos_pi_half_minus)
  qed
  have lo: "6718 / 10000 \<le> ?psi" using pi_lower by simp
  have hi: "?psi \<le> 67183 / 100000" using pi_upper by simp
  have "sin (6718 / 10000) \<le> sin ?psi"
    using lo pi_ge_two by (intro sin_ge_of_rational) simp_all
  moreover have "sin ?psi \<le> sin (67183 / 100000)"
    using hi lo pi_ge_two by (intro sin_ge_of_rational) simp_all
  ultimately show ?thesis using sin_37_lower sin_37_upper unfolding e by linarith
qed

lemma cos_paris: "657 / 1000 \<le> cos (488566 / 10000 * pi / 180) \<and> cos (488566 / 10000 * pi / 180) \<le> 659 / 1000"
proof -
  let ?psi = "411434 * pi / 1800000"
  have e: "cos (488566 / 10000 * pi / 180) = sin ?psi"
  proof -
    have "488566 / 10000 * pi / 180 = pi / 2 - ?psi" by simp
    then show ?thesis by (simp only: cos_pi_half_minus)
  qed
  have lo: "71806 / 100000 \<le> ?psi" using pi_lower by simp
  have hi: "?psi \<le> 71809 / 100000" using pi_upper by simp
  have "sin (71806 / 100000) \<le> sin ?psi"
    using lo pi_ge_two by (intro sin_ge_of_rational) simp_all
  moreover have "sin ?psi \<le> sin (71809 / 100000)"
    using hi lo pi_ge_two by (intro sin_ge_of_rational) simp_all
  ultimately show ?thesis using sin_41_lower sin_41_upper unfolding e by linarith
qed

lemma sin_half_dLat:
  "23128 / 1000000 \<le> sin (26508 * pi / 3600000) \<and> sin (26508 * pi / 3600000) \<le> 23133 / 1000000"
proof -
  have lo: "23131 / 1000000 \<le> 26508 * pi / 3600000" using pi_lower by simp
  have hi: "26508 * pi / 3600000 \<le> 23133 / 1000000" using pi_upper by simp
  have "23128 / 1000000 \<le> 23131 / 1000000 - (23133 / 1000000 :: real)^3 / 6"
    by (simp add: power_divide)
  with sin_small_bounds [OF _ lo hi] show ?thesis by simp
qed

lemma sin_half_dLon:
  "21639 / 1000000 \<le> sin (248 * pi / 36000) \<and> sin (248 * pi / 36000) \<le> 21643 / 1000000"
proof -
  have lo: "21641 / 1000000 \<le> 248 * pi / 36000" using pi_lower by simp
  have hi: "248 * pi / 36000 \<le> 21643 / 1000000" using pi_upper by simp
  have "21639 / 1000000 \<le> 21641 / 1000000 - (21643 / 1000000 :: real)^3 / 6"
    by (simp add: power_divide)
  with sin_small_bounds [OF _ lo hi] show ?thesis by simp
qed

lemma fixture_a_form:
  "calculateDistance_a (515074 / 10000) (- (1278 / 10000)) (488566 / 10000) (23522 / 10000)
   = (sin (26508 * pi / 3600000))\<^sup>2
     + cos (515074 / 10000 * pi / 180) * cos (488566 / 10000 * pi / 180) * (sin (248 * pi / 36000))\<^sup>2"
proof -
  have 1: "(488566 / 10000 - 515074 / 10000) * pi / 180 / 2 = - (26508 * pi / 3600000)" by simp
  have 2: "(23522 / 10000 - - (1278 / 10000)) * pi / 180 / 2 = 248 * pi / 36000" by simp
  show ?thesis
    unfolding calculateDistance_a_def Let_def 1 2 by (simp add: power2_eq_square)
qed

lemma fixture_a_bounds:
  "72622 / 100000000 \<le> calculateDistance_a (515074 / 10000) (- (1278 / 10000)) (488566 / 10000) (23522 / 10000)
   \<and> calculateDistance_a (515074 / 10000) (- (1278 / 10000)) (488566 / 10000) (23522 / 10000) \<le> 72747 / 100000000"
  unfolding fixture_a_form
  by (rule haversine_term_arith)
     (rule conjunct1 [OF sin_half_dLat] conjunct2 [OF sin_half_dLat]
           conjunct1 [OF sin_half_dLon] conjunct2 [OF sin_half_dLon]
           conjunct1 [OF cos_london] conjunct2 [OF cos_london]
           conjunct1 [OF cos_paris] conjunct2 [OF cos_paris])+

lemma arcsin_sqrt_lower:
  fixes a l :: real
  assumes "0 \<le> l" "l \<le> 1" "l\<^sup>2 \<le> a" "a \<le> 1"
  shows "l \<le> arcsin (sqrt a)"
proof -
  have "l \<le> sqrt a" using assms by (intro real_le_rsqrt)
  moreover have "sin l \<le> l" using assms by (intro sin_x_le_x)
  moreover have "0 \<le> sin l" using assms pi_ge_two by (intro sin_ge_zero) linarith+
  moreover have "sqrt a \<le> 1" using assms by simp
  ultimately have "arcsin (sin l) \<le> arcsin (sqrt a)"
    by (intro arcsin_le_arcsin) linarith+
  moreover have "arcsin (sin l) = l"
    using assms pi_ge_two by (intro arcsin_sin) linarith+
  ultimately show ?thesis by simp
qed

lemma arcsin_sqrt_upper:
  fixes a u :: real
  assumes "0 \<le> u" "u \<le> 1" "0 \<le> a" "a \<le> (u - u^3 / 6)\<^sup>2" "0 \<le> u - u^3 / 6"
  shows "arcsin (sqrt a) \<le> u"
proof -
  have "sqrt a \<le> u - u^3 / 6" using assms by (intro real_le_lsqrt)
  moreover have "u - u^3 / 6 \<le> sin u"
    using sin_small_bounds [of u u u] assms by simp
  moreover have "sin u \<le> 1" by simp
  moreover have "0 \<le> sqrt a" using assms by simp
  ultimately have "arcsin (sqrt a) \<le> arcsin (sin u)"
    by (intro arcsin_le_arcsin) linarith+
  moreover have "arcsin (sin u) = u"
    using assms pi_ge_two by (intro arcsin_sin) linarith+
  ultimately show ?thesis by simp
qed

lemma calculateDistance_distance_arcsin:
  "calculateDistance_distance lat1 lon1 lat2 lon2
     = 6371 * (2 * arcsin (sqrt (calculateDistance_a lat1 lon1 lat2 lon2)))"
proof -
  have r: "0 \<le> calculateDistance_a lat1 lon1 lat2 lon2" "calculateDistance_a lat1 lon1 lat2 lon2 \<le> 1"
    using calculateDistance_a_range by simp_all
  show ?thesis
    by (simp add: calculateDistance_distance_def calculateDistance_c_def Let_def Math_atan2_sqrt [OF r])
qed

lemma fixture_distance_bounds:
  "343 \<le> calculateDistance_distance (515074 / 10000) (- (1278 / 10000)) (488566 / 10000) (23522 / 10000)
   \<and> calculateDistance_distance (515074 / 10000) (- (1278 / 10000)) (488566 / 10000) (23522 / 10000) \<le> 344"
proof -
  let ?a = "calculateDistance_a (515074 / 10000) (- (1278 / 10000)) (488566 / 10000) (23522 / 10000)"
  have a: "72622 / 100000000 \<le> ?a" "?a \<le> 72747 / 100000000"
    using fixture_a_bounds by simp_all
  then have r: "0 \<le> ?a" "?a \<le> 1" by linarith+
  have d: "calculateDistance_distance (515074 / 10000) (- (1278 / 10000)) (488566 / 10000) (23522 / 10000)
      = 6371 * (2 * arcsin (sqrt ?a))"
    by (rule calculateDistance_distance_arcsin)
  have "(343 / 12742 :: real)\<^sup>2 \<le> 72622 / 100000000" by (simp add: power_divide)
  with a have "(343 / 12742)\<^sup>2 \<le> ?a" by linarith
  then have lo: "343 / 12742 \<le> arcsin (sqrt ?a)"
    using r by (intro arcsin_sqrt_lower) simp_all
  have "(72747 / 100000000 :: real) \<le> (344 / 12742 - (344 / 12742)^3 / 6)\<^sup>2"
    by (simp add: power_divide)
  with a have "?a \<le> (344 / 12742 - (344 / 12742)^3 / 6)\<^sup>2" by linarith
  moreover have "(0::real) \<le> 344 / 12742 - (344 / 12742)^3 / 6" by (simp add: power_divide)
  ultimately have hi: "arcsin (sqrt ?a) \<le> 344 / 12742"
    using r by (intro arcsin_sqrt_upper) simp_all
  show ?thesis unfolding d using lo hi by simp
qed

section \<open>Properties of the distance\<close>

text \<open>
  The definitions of the exact reading are the general ones at the arithmetic \<open>exact\<close>.
\<close>

lemma a_in_exact: "a_in exact lat1 lon1 lat2 lon2 = calculateDistance_a lat1 lon1 lat2 lon2"
  by (simp add: a_in_def exact_def calculateDistance_a_def Let_def)

lemma distance_in_exact:
  "distance_in exact lat1 lon1 lat2 lon2 = calculateDistance_distance lat1 lon1 lat2 lon2"
  by (simp add: distance_in_def distance_from_a_in_def a_in_exact calculateDistance_distance_def
      calculateDistance_c_def Let_def) (simp add: exact_def)

lemma calculateDistance_in_exact:
  "calculateDistance_in exact lat1 lon1 lat2 lon2 prev = calculateDistance lat1 lon1 lat2 lon2 prev"
  using distance_in_exact [of lat1 lon1 lat2 lon2]
  by (simp add: calculateDistance_in_def calculateDistance_def distance_in_def Let_def)
     (simp add: exact_def)

text \<open>
  Claim C1, as the code has it. In every arithmetic, that of JavaScript included,
  \<open>calculateDistance\<close> does not return a value: it changes the form, storing
  \<open>toFixed(2)\<close> of its constant \<open>distance\<close> in \<open>distance_km\<close> and nothing else, so what it
  stores depends on its four arguments only. In exact arithmetic the constant \<open>distance\<close>
  is the Haversine distance of the specification, \<open>6371 * c\<close>.
\<close>

theorem calculateDistance_stores_haversine:
  "calculateDistance_in A lat1 lon1 lat2 lon2 prev
     = prev\<lparr>distance_km := toFixed2_op A (distance_in A lat1 lon1 lat2 lon2)\<rparr>
   \<and> distance_in exact la1 lo1 la2 lo2 = spec_haversine la1 lo1 la2 lo2
   \<and> calculateDistance_in exact la1 lo1 la2 lo2 prev = calculateDistance la1 lo1 la2 lo2 prev"
proof (intro conjI)
  show "calculateDistance_in A lat1 lon1 lat2 lon2 prev
     = prev\<lparr>distance_km := toFixed2_op A (distance_in A lat1 lon1 lat2 lon2)\<rparr>"
    by (simp add: calculateDistance_in_def distance_in_def Let_def)
  show "distance_in exact la1 lo1 la2 lo2 = spec_haversine la1 lo1 la2 lo2"
    by (simp only: distance_in_exact calculateDistance_distance_spec)
  show "calculateDistance_in exact la1 lo1 la2 lo2 prev = calculateDistance la1 lo1 la2 lo2 prev"
    by (rule calculateDistance_in_exact)
qed

lemma calculateDistance_c_meridian:
  assumes "la \<le> la'" "la' - la \<le> 180"
  shows "calculateDistance_c la lo la' lo = (la' - la) * pi / 180"
proof -
  have d: "radians la' - radians la = (la' - la) * pi / 180"
    by (simp add: radians_def field_simps)
  have "sin (radians la) * sin (radians la') + cos (radians la) * cos (radians la') * cos (radians lo - radians lo)
      = cos (radians la' - radians la)"
    by (simp add: cos_diff)
  moreover have "0 \<le> radians la' - radians la" unfolding d using assms by simp
  moreover have "radians la' - radians la \<le> pi"
  proof -
    have "(la' - la) * pi \<le> 180 * pi" using assms by (intro mult_right_mono) simp_all
    then show ?thesis unfolding d by simp
  qed
  ultimately show ?thesis
    unfolding calculateDistance_c_central_angle central_angle_def
    by (simp only: arccos_cos d)
qed

lemma half_degree_c: "calculateDistance_c 10 20 (21 / 2) 20 = pi / 360"
proof -
  have "calculateDistance_c 10 20 (21 / 2) 20 = (21 / 2 - 10) * pi / 180"
    by (rule calculateDistance_c_meridian) simp_all
  then show ?thesis by simp
qed

lemma half_degree_hundredths: "\<lfloor>100 * (6371 * (pi / 360)) + 1 / 2\<rfloor> = 5560"
proof (rule floor_unique)
  have "5560 \<le> 100 * (6371 * (pi / 360)) + 1 / 2" using pi_lower by linarith
  then show "of_int 5560 \<le> 100 * (6371 * (pi / 360)) + 1 / 2" by simp
  have "100 * (6371 * (pi / 360)) + 1 / 2 < 5561" using pi_upper by linarith
  then show "100 * (6371 * (pi / 360)) + 1 / 2 < of_int 5560 + 1" by simp
qed

text \<open>
  Claim C1 as stated fails: for the points \<open>(10, 20)\<close> and \<open>(10.5, 20)\<close> the function
  yields the string \<open>55.60\<close>, which is not \<open>6371 * c\<close> (about 55.5975), and it yields it by
  changing the form, not by returning a value.
\<close>

theorem calculateDistance_returns_counterexample:
  "distance_km (calculateDistance 10 20 (21 / 2) 20 initial_formData) = Fixed2 5560
   \<and> 6371 * calculateDistance_c 10 20 (21 / 2) 20 \<noteq> 5560 / 100
   \<and> calculateDistance 10 20 (21 / 2) 20 initial_formData \<noteq> initial_formData"
proof -
  have d: "calculateDistance_distance 10 20 (21 / 2) 20 = 6371 * (pi / 360)"
    by (simp only: calculateDistance_distance_def Let_def half_degree_c)
  have "toFixed2 (calculateDistance_distance 10 20 (21 / 2) 20)
      = Fixed2 \<lfloor>100 * calculateDistance_distance 10 20 (21 / 2) 20 + 1 / 2\<rfloor>"
    by (rule toFixed2_distance)
  also have "\<dots> = Fixed2 5560"
    by (simp only: d half_degree_hundredths)
  finally have s: "distance_km (calculateDistance 10 20 (21 / 2) 20 initial_formData) = Fixed2 5560"
    by (simp add: calculateDistance_def)
  have "6371 * (pi / 360) < 5560 / 100" using pi_upper by linarith
  then have n: "6371 * calculateDistance_c 10 20 (21 / 2) 20 \<noteq> 5560 / 100"
    unfolding half_degree_c by simp
  have "distance_km initial_formData \<noteq> Fixed2 5560" by (simp add: initial_formData_def)
  with s have "calculateDistance 10 20 (21 / 2) 20 initial_formData \<noteq> initial_formData" by metis
  with s n show ?thesis by simp
qed

text \<open>
  Claim C6. The distance from a point to itself is exactly 0, for every latitude and
  longitude (in particular for those in range): the computed distance is 0 and the
  stored one is \<open>0.00\<close>.
\<close>

theorem distance_same_point_zero:
  "calculateDistance_distance la lo la lo = 0
   \<and> distance_km (calculateDistance la lo la lo prev) = Fixed2 0"
  by (simp add: calculateDistance_def calculateDistance_distance_same toFixed2_zero)

text \<open>
  Claim C7. The distance is symmetric in its two points: swapping them changes neither
  the computed distance nor what \<open>calculateDistance\<close> stores.
\<close>

theorem distance_symmetric:
  "calculateDistance_distance lat1 lon1 lat2 lon2 = calculateDistance_distance lat2 lon2 lat1 lon1
   \<and> calculateDistance lat1 lon1 lat2 lon2 prev = calculateDistance lat2 lon2 lat1 lon1 prev"
  by (simp add: calculateDistance_def calculateDistance_distance_sym [of lat1 lon1 lat2 lon2])

lemma distance_from_a_NaN:
  assumes "1 < a"
  shows "distance_from_a_in with_NaN (Fin a) = NaN"
  using assms by (simp add: distance_from_a_in_def with_NaN_def Let_def)

lemma distance_from_a_in_range:
  assumes "0 \<le> a" "a \<le> 1"
  shows "distance_from_a_in with_NaN (Fin a) = Fin (distance_from_a_in exact a)"
  using assms by (simp add: distance_from_a_in_def with_NaN_def exact_def Let_def)

text \<open>
  Claim C8 fails on the code. In exact arithmetic \<open>a\<close> never exceeds 1
  (\<open>calculateDistance_a_range\<close>), and the code relies on it: it does not clamp \<open>a\<close>. In
  binary64 the rounded \<open>a\<close> of the antipodal points \<open>(82.0672, -12.7411)\<close> and
  \<open>(-82.0672, 167.2589)\<close> is \<open>1 + 2^-52\<close>. From there \<open>Math.sqrt(1 - a)\<close> is NaN, so are \<open>c\<close>
  and \<open>distance\<close>, and the function stores the string \<open>NaN\<close>, where the claim has a real number
  that is not negative.
\<close>

theorem calculateDistance_NaN_beyond_one:
  "distance_from_a_in with_NaN (Fin (1 + 1 / 2 ^ 52)) = NaN
   \<and> toFixed2_op with_NaN (distance_from_a_in with_NaN (Fin (1 + 1 / 2 ^ 52))) = Text ''NaN''"
proof -
  have "(1::real) < 1 + 1 / 2 ^ 52" by simp
  then have "distance_from_a_in with_NaN (Fin (1 + 1 / 2 ^ 52)) = NaN"
    by (rule distance_from_a_NaN)
  then show ?thesis by (simp add: with_NaN_def)
qed

text \<open>
  Claim C9. The distance between London \<open>(51.5074, -0.1278)\<close> and Paris
  \<open>(48.8566, 2.3522)\<close> lies between 343 and 344 kilometres, and so does the rounded
  distance that is stored.
\<close>

theorem london_paris_distance:
  "343 \<le> calculateDistance_distance 51.5074 (- 0.1278) 48.8566 2.3522
   \<and> calculateDistance_distance 51.5074 (- 0.1278) 48.8566 2.3522 \<le> 344
   \<and> distance_km (calculateDistance 51.5074 (- 0.1278) 48.8566 2.3522 prev)
       = Fixed2 \<lfloor>100 * calculateDistance_distance 51.5074 (- 0.1278) 48.8566 2.3522 + 1 / 2\<rfloor>
   \<and> 34300 \<le> \<lfloor>100 * calculateDistance_distance 51.5074 (- 0.1278) 48.8566 2.3522 + 1 / 2\<rfloor>
   \<and> \<lfloor>100 * calculateDistance_distance 51.5074 (- 0.1278) 48.8566 2.3522 + 1 / 2\<rfloor> \<le> 34400"
proof -
  let ?d = "calculateDistance_distance 51.5074 (- 0.1278) 48.8566 2.3522"
  have e: "?d = calculateDistance_distance (515074 / 10000) (- (1278 / 10000)) (488566 / 10000) (23522 / 10000)"
    by simp
  have b: "343 \<le> ?d" "?d \<le> 344" unfolding e using fixture_distance_bounds by blast+
  have "of_int 34300 \<le> 100 * ?d + 1 / 2" using b by simp
  then have lo: "34300 \<le> \<lfloor>100 * ?d + 1 / 2\<rfloor>" by (simp only: le_floor_iff)
  have "100 * ?d + 1 / 2 < of_int 34400 + 1" using b by simp
  then have hi: "\<lfloor>100 * ?d + 1 / 2\<rfloor> \<le> 34400" by (simp only: floor_le_iff)
  have "distance_km (calculateDistance 51.5074 (- 0.1278) 48.8566 2.3522 prev) = Fixed2 \<lfloor>100 * ?d + 1 / 2\<rfloor>"
    by (simp only: calculateDistance_def toFixed2_distance) simp
  with b lo hi show ?thesis by blast
qed

section \<open>The route selection and its distance\<close>

lemma clearLocation_display:
  "calculated_distance_display (form (clearLocation ty s)) = None
   \<and> distance_km (form (clearLocation ty s)) = distance_km (form s)"
  by (cases ty) (simp_all add: clearLocation_def calculated_distance_display_def)

lemma stale_closure_not_recomputed:
  "end_lat cl = None \<Longrightarrow>
     distance_km (form (setStartMarker la lng geo cl s)) = distance_km (form s)"
  by (simp add: setStartMarker_def Let_def distance_from_start_def split: option.splits)

lemma form_markers_placed:
  "form markers_placed =
     initial_formData
       \<lparr>start_lat := Some 51.5074, start_lon := Some (- 0.1278),
        start_location_name := ''London'',
        end_lat := Some 48.8566, end_lon := Some 2.3522, end_location_name := ''Paris'',
        distance_km := toFixed2 (calculateDistance_distance 51.5074 (- 0.1278) 48.8566 2.3522)\<rparr>"
  by (simp add: markers_placed_def setEndMarker_def setStartMarker_def Let_def
      distance_from_start_def distance_to_end_def calculateDistance_def
      initial_state_def initial_formData_def)

lemma form_start_dragged:
  "form start_dragged =
     initial_formData
       \<lparr>start_lat := Some 48.8566, start_lon := Some 2.3522,
        start_location_name := ''Paris'',
        end_lat := Some 48.8566, end_lon := Some 2.3522, end_location_name := ''Paris'',
        distance_km := toFixed2 (calculateDistance_distance 51.5074 (- 0.1278) 48.8566 2.3522)\<rparr>"
  by (simp add: start_dragged_def setStartMarker_def Let_def form_markers_placed
      distance_from_start_def initial_formData_def)

lemma london_paris_not_zero:
  "toFixed2 (calculateDistance_distance 51.5074 (- 0.1278) 48.8566 2.3522)
     \<noteq> toFixed2 (calculateDistance_distance 48.8566 2.3522 48.8566 2.3522)"
proof -
  let ?d = "calculateDistance_distance 51.5074 (- 0.1278) 48.8566 2.3522"
  have e: "?d = calculateDistance_distance (515074 / 10000) (- (1278 / 10000)) (488566 / 10000) (23522 / 10000)"
    by simp
  have "343 \<le> ?d" unfolding e using fixture_distance_bounds by blast
  then have "of_int 34300 \<le> 100 * ?d + 1 / 2" by simp
  then have "34300 \<le> \<lfloor>100 * ?d + 1 / 2\<rfloor>" by (simp only: le_floor_iff)
  then have "\<lfloor>100 * ?d + 1 / 2\<rfloor> \<noteq> 0" by linarith
  then have "toFixed2 ?d \<noteq> Fixed2 0" by (simp only: toFixed2_distance) simp
  then show ?thesis unfolding calculateDistance_distance_same toFixed2_zero .
qed

text \<open>
  Claim C4 fails on the code, in two ways. The handlers and the panel test a coordinate
  by truthiness, and the number 0 is falsy: after a start on the equator and an end in
  Paris have been selected, both coordinates are present, yet the distance is still the
  initial 5 and the panel shows nothing. And the handler of a marker drag belongs to the
  render that created the marker: after the start marker has been placed in London, the
  end marker in Paris, and the start marker dragged onto Paris, the start coordinate has
  changed, yet the distance, which the panel shows, is still that from London to Paris
  and not \<open>0.00\<close>.
\<close>

theorem route_distance_not_recomputed:
  "both_present (form (select_suggestion paris End (select_suggestion equator_point Start initial_state)))
   \<and> distance_km (form (select_suggestion paris End (select_suggestion equator_point Start initial_state)))
       = Num 5
   \<and> calculated_distance_display
        (form (select_suggestion paris End (select_suggestion equator_point Start initial_state)))
       = None
   \<and> start_lat (form start_dragged) = Some 48.8566 \<and> start_lon (form start_dragged) = Some 2.3522
   \<and> end_lat (form start_dragged) = Some 48.8566 \<and> end_lon (form start_dragged) = Some 2.3522
   \<and> distance_km (form start_dragged) = distance_km (form markers_placed)
   \<and> distance_km (form start_dragged)
       = toFixed2 (calculateDistance_distance 51.5074 (- 0.1278) 48.8566 2.3522)
   \<and> distance_km (form start_dragged)
       \<noteq> toFixed2 (calculateDistance_distance 48.8566 2.3522 48.8566 2.3522)
   \<and> calculated_distance_display (form start_dragged) = Some (distance_km (form start_dragged))"
proof -
  have a: "both_present (form (select_suggestion paris End (select_suggestion equator_point Start initial_state)))
   \<and> distance_km (form (select_suggestion paris End (select_suggestion equator_point Start initial_state)))
       = Num 5
   \<and> calculated_distance_display
        (form (select_suggestion paris End (select_suggestion equator_point Start initial_state)))
       = None"
    by (simp add: select_suggestion_def handleLocationSelect_def Let_def
      distance_from_start_def distance_to_end_def calculateDistance_def equator_point_def paris_def
      initial_state_def initial_formData_def both_present_def calculated_distance_display_def)
  have b: "distance_km (form start_dragged)
       = toFixed2 (calculateDistance_distance 51.5074 (- 0.1278) 48.8566 2.3522)"
    by (simp add: form_start_dragged)
  have c: "distance_km (form markers_placed)
       = toFixed2 (calculateDistance_distance 51.5074 (- 0.1278) 48.8566 2.3522)"
    by (simp add: form_markers_placed)
  have d: "start_lat (form start_dragged) = Some 48.8566" "start_lon (form start_dragged) = Some 2.3522"
     "end_lat (form start_dragged) = Some 48.8566" "end_lon (form start_dragged) = Some 2.3522"
    by (simp_all add: form_start_dragged)
  have e: "calculated_distance_display (form start_dragged) = Some (distance_km (form start_dragged))"
    by (simp add: calculated_distance_display_def d)
  from a b c d e london_paris_not_zero show ?thesis by (simp only:) simp
qed

end
